theory Spec2Isabelle
  imports Complex_Main
begin

section \<open>Errors thrown by the calculation\<close>

text \<open>
  \<open>calculatePatientData\<close> throws values of JavaScript's built-in error classes only:
  \<open>new Error(...)\<close> at its three fatal fetches, the \<open>RangeError\<close> of
  \<open>Date.prototype.toISOString\<close> on an invalid date, and the \<open>TypeError\<close> of a method call
  on \<open>null\<close>. The constructor is the class, the argument the \<open>message\<close>.
\<close>

datatype js_error = Error string | RangeError string | TypeError string

fun errorName :: "js_error \<Rightarrow> string" where
  "errorName (Error m) = ''Error''"
| "errorName (RangeError m) = ''RangeError''"
| "errorName (TypeError m) = ''TypeError''"

fun errorMessage :: "js_error \<Rightarrow> string" where
  "errorMessage (Error m) = m"
| "errorMessage (RangeError m) = m"
| "errorMessage (TypeError m) = m"

section \<open>Dates\<close>

text \<open>
  A \<open>Date\<close> is its time value, milliseconds since the epoch in UTC; \<open>None\<close> is the
  invalid date (time value \<open>NaN\<close>). The functions below are the abstract operations of
  the language that \<open>new Date(year, month, date, ...)\<close> is made of. The host's time zone
  is a fixed offset \<open>tza\<close> (milliseconds east of UTC).

  An ISO-8601 text, whether produced by \<open>toISOString\<close> or returned by the store in a
  \<open>created_at\<close> column, is represented by the time value it denotes, and its date part
  \<open>YYYY-MM-DD\<close> by the number of its UTC day.
\<close>

definition msPerDay :: int where
  "msPerDay = 86400000"

definition DayFromYear :: "int \<Rightarrow> int" where
  "DayFromYear y = 365 * (y - 1970) + (y - 1969) div 4 - (y - 1901) div 100 + (y - 1601) div 400"

definition InLeapYear :: "int \<Rightarrow> bool" where
  "InLeapYear y \<longleftrightarrow> (y mod 4 = 0 \<and> y mod 100 \<noteq> 0) \<or> y mod 400 = 0"

definition DaysBeforeMonth :: "int \<Rightarrow> bool \<Rightarrow> int" where
  "DaysBeforeMonth m leap =
     (let l = (if leap then 1 else 0) in
      if m = 0 then 0 else if m = 1 then 31 else if m = 2 then 59 + l
      else if m = 3 then 90 + l else if m = 4 then 120 + l else if m = 5 then 151 + l
      else if m = 6 then 181 + l else if m = 7 then 212 + l else if m = 8 then 243 + l
      else if m = 9 then 273 + l else if m = 10 then 304 + l else 334 + l)"

definition MakeDay :: "int \<Rightarrow> int \<Rightarrow> int \<Rightarrow> int" where
  "MakeDay year month date =
     (let ym = year + month div 12; mn = month mod 12
      in DayFromYear ym + DaysBeforeMonth mn (InLeapYear ym) + date - 1)"

definition MakeTime :: "int \<Rightarrow> int \<Rightarrow> int \<Rightarrow> int \<Rightarrow> int" where
  "MakeTime hour minute sec ms = hour * 3600000 + minute * 60000 + sec * 1000 + ms"

definition MakeDate :: "int \<Rightarrow> int \<Rightarrow> int" where
  "MakeDate day time = day * msPerDay + time"

definition TimeClip :: "int \<Rightarrow> int option" where
  "TimeClip t = (if \<bar>t\<bar> \<le> 8640000000000000 then Some t else None)"

definition UTC :: "int \<Rightarrow> int \<Rightarrow> int" where
  "UTC tza t = t - tza"

definition LocalTime :: "int \<Rightarrow> int \<Rightarrow> int" where
  "LocalTime tza t = t + tza"

text \<open>
  \<open>new Date(year, month, date, hours, minutes, seconds, ms)\<close>. The year is a number that
  is an integer or \<open>NaN\<close> (\<open>None\<close>): the route handler passes \<open>parseInt(year)\<close> or the
  current year. A year from 0 to 99 is read as 1900 + year.
\<close>

definition newDate :: "int \<Rightarrow> int option \<Rightarrow> int \<Rightarrow> int \<Rightarrow> int \<Rightarrow> int \<Rightarrow> int \<Rightarrow> int \<Rightarrow> int option" where
  "newDate tza year month date hours minutes seconds ms =
     (case year of
        None \<Rightarrow> None
      | Some y \<Rightarrow>
          (let yr = (if 0 \<le> y \<and> y \<le> 99 then 1900 + y else y)
           in TimeClip (UTC tza (MakeDate (MakeDay yr month date) (MakeTime hours minutes seconds ms)))))"

text \<open>\<open>toISOString\<close> throws on the invalid date; the text is its time value.\<close>

definition toISOString :: "int option \<Rightarrow> js_error + int" where
  "toISOString d = (case d of None \<Rightarrow> Inl (RangeError ''Invalid time value'') | Some t \<Rightarrow> Inr t)"

text \<open>\<open>new Date(text)\<close> of a stored timestamp, and of a date-only text (UTC midnight).\<close>

definition dateOfTimestamp :: "int \<Rightarrow> int option" where
  "dateOfTimestamp t = TimeClip t"

definition dateOfDay :: "int \<Rightarrow> int option" where
  "dateOfDay d = TimeClip (d * msPerDay)"

text \<open>\<open>d.toISOString().split('T')[0]\<close>: the UTC day of a valid date.\<close>

definition isoDatePart :: "int \<Rightarrow> int" where
  "isoDatePart t = t div msPerDay"

text \<open>\<open>d.setHours(h, m, s, ms)\<close>: the local day is kept, the local time of day replaced.\<close>

definition setHours :: "int \<Rightarrow> int option \<Rightarrow> int \<Rightarrow> int \<Rightarrow> int \<Rightarrow> int \<Rightarrow> int option" where
  "setHours tza d h m s ms =
     (case d of
        None \<Rightarrow> None
      | Some t \<Rightarrow> TimeClip (UTC tza (MakeDate (LocalTime tza t div msPerDay) (MakeTime h m s ms))))"

section \<open>Values and rows of the store\<close>

text \<open>
  A \<open>price\<close> cell as the store returns it: \<open>null\<close>, a JSON number, or a text. Numbers
  are real numbers here; the rounding of IEEE doubles is not modelled.
\<close>

datatype js_value = JNull | JNum real | JStr string

definition isDigit :: "char \<Rightarrow> bool" where
  "isDigit c \<longleftrightarrow> 48 \<le> (of_char c :: nat) \<and> (of_char c :: nat) \<le> 57"

definition isWhiteSpace :: "char \<Rightarrow> bool" where
  "isWhiteSpace c \<longleftrightarrow> (of_char c :: nat) \<in> {9, 10, 11, 12, 13, 32}"

definition digitsValue :: "string \<Rightarrow> nat" where
  "digitsValue ds = foldl (\<lambda>n c. 10 * n + ((of_char c :: nat) - 48)) 0 ds"

definition signedDigits :: "string \<Rightarrow> int" where
  "signedDigits r =
     (case r of
        [] \<Rightarrow> 0
      | s # r' \<Rightarrow>
          if s = CHR ''-'' then - int (digitsValue (takeWhile isDigit r'))
          else if s = CHR ''+'' then int (digitsValue (takeWhile isDigit r'))
          else int (digitsValue (takeWhile isDigit r)))"

definition exponentPart :: "string \<Rightarrow> int" where
  "exponentPart r =
     (case r of
        [] \<Rightarrow> 0
      | c # r' \<Rightarrow> if c = CHR ''e'' \<or> c = CHR ''E'' then signedDigits r' else 0)"

definition scale10 :: "real \<Rightarrow> int \<Rightarrow> real" where
  "scale10 x e = (if 0 \<le> e then x * 10 ^ nat e else x / 10 ^ nat (- e))"

text \<open>
  \<open>parseFloat\<close> on a text: leading white space is skipped, then the longest prefix that
  is a decimal literal is read and the rest ignored; \<open>None\<close> is \<open>NaN\<close>. The literal
  \<open>Infinity\<close>, whose value is no real number, is outside this model and reads as \<open>NaN\<close>.
\<close>

definition parseFloatText :: "string \<Rightarrow> real option" where
  "parseFloatText s =
     (let s1 = dropWhile isWhiteSpace s;
          neg = (case s1 of [] \<Rightarrow> False | c # _ \<Rightarrow> c = CHR ''-'');
          s2 = (case s1 of [] \<Rightarrow> [] | c # r \<Rightarrow> if c = CHR ''-'' \<or> c = CHR ''+'' then r else s1);
          ip = takeWhile isDigit s2;
          r1 = dropWhile isDigit s2;
          hasDot = (case r1 of [] \<Rightarrow> False | c # _ \<Rightarrow> c = CHR ''.'');
          fp = (if hasDot then takeWhile isDigit (tl r1) else []);
          r2 = (if hasDot then dropWhile isDigit (tl r1) else r1)
      in if ip = [] \<and> fp = [] then None
         else
           (let mant = scale10 (real (digitsValue (ip @ fp))) (exponentPart r2 - int (length fp))
            in Some (if neg then - mant else mant)))"

fun parseFloat :: "js_value \<Rightarrow> real option" where
  "parseFloat JNull = None"
| "parseFloat (JNum r) = Some r"
| "parseFloat (JStr s) = parseFloatText s"

text \<open>\<open>s || d\<close> on a nullable text: \<open>null\<close> and the empty text are falsy.\<close>

definition strOr :: "string option \<Rightarrow> string \<Rightarrow> string" where
  "strOr s d = (case s of None \<Rightarrow> d | Some x \<Rightarrow> if x = [] then d else x)"

text \<open>Truthiness of a nullable numeric id: \<open>null\<close> and \<open>0\<close> are falsy.\<close>

definition truthyId :: "int option \<Rightarrow> bool" where
  "truthyId v = (case v of None \<Rightarrow> False | Some n \<Rightarrow> n \<noteq> 0)"

text \<open>
  The rows of the four tables, with the columns the calculation reads. A \<open>select\<close> of
  fewer columns hides only columns that are not read afterwards. Timestamps are time
  values; \<open>None\<close> is SQL \<open>null\<close>.
\<close>

record profile =
  pr_id :: int
  pr_first_name :: "string option"
  pr_last_name :: "string option"

record purchase =
  pu_id :: int
  pu_purchase_user :: int
  pu_created_at :: int

record list_item =
  li_id :: int
  li_purchase_id :: "int option"
  li_list_id :: int
  li_title :: "string option"
  li_price :: js_value
  li_link :: "string option"
  li_thumbnail_url :: "string option"
  li_created_at :: "int option"
  li_suggested_by :: "int option"

record gift_list =
  gl_id :: int
  gl_name :: "string option"
  gl_created_at :: int
  gl_owner_user_id :: int

section \<open>Objects used as dictionaries\<close>

text \<open>
  A JavaScript object enumerates its own keys (\<open>Object.entries\<close>, \<open>Object.values\<close>) with
  the array-index keys first, in ascending numeric order, and the other keys after them in
  the order of their creation. An object is the list of its entries in that order.
  \<open>ix k\<close> is the index a key denotes, if it is an array index.

  The key \<open>String(id)\<close> of a numeric id is represented by the id, and \<open>parseInt\<close> of the
  key gives the id back; it is an array index from 0 to \<open>2^32 - 2\<close>. A date key
  \<open>YYYY-MM-DD\<close> is never an array index.
\<close>

definition idIndex :: "int \<Rightarrow> nat option" where
  "idIndex k = (if 0 \<le> k \<and> k < 4294967295 then Some (nat k) else None)"

definition noIndex :: "int \<Rightarrow> nat option" where
  "noIndex k = None"

fun insertKey :: "('k \<Rightarrow> nat option) \<Rightarrow> 'k \<Rightarrow> 'v \<Rightarrow> ('k \<times> 'v) list \<Rightarrow> ('k \<times> 'v) list" where
  "insertKey ix k v [] = [(k, v)]"
| "insertKey ix k v ((k', v') # rest) =
     (case ix k of
        None \<Rightarrow> (k', v') # insertKey ix k v rest
      | Some n \<Rightarrow>
          (case ix k' of
             None \<Rightarrow> (k, v) # (k', v') # rest
           | Some n' \<Rightarrow> if n < n' then (k, v) # (k', v') # rest
                        else (k', v') # insertKey ix k v rest))"

text \<open>\<open>obj[k] = v\<close>: an existing key keeps its place.\<close>

definition setProp :: "('k \<Rightarrow> nat option) \<Rightarrow> 'k \<Rightarrow> 'v \<Rightarrow> ('k \<times> 'v) list \<Rightarrow> ('k \<times> 'v) list" where
  "setProp ix k v obj =
     (if k \<in> fst ` set obj then map (\<lambda>(k', v'). if k' = k then (k', v) else (k', v')) obj
      else insertKey ix k v obj)"

section \<open>The reductions\<close>

subsection \<open>Spend and extremes\<close>

text \<open>\<open>parseFloat(item.price) || 0\<close>: \<open>NaN\<close> and 0 are falsy.\<close>

definition priceOf :: "list_item \<Rightarrow> real" where
  "priceOf item = (case parseFloat (li_price item) of None \<Rightarrow> 0 | Some r \<Rightarrow> r)"

definition spent :: "list_item list \<Rightarrow> real" where
  "spent listItems = foldl (\<lambda>sum item. sum + priceOf item) 0 listItems"

definition mostExpensiveItem :: "list_item list \<Rightarrow> list_item option" where
  "mostExpensiveItem listItems =
     (case listItems of
        [] \<Rightarrow> None
      | first # _ \<Rightarrow>
          Some (foldl (\<lambda>max item. if priceOf item > priceOf max then item else max) first listItems))"

subsection \<open>List with most items\<close>

record list_with_most_items =
  lw_id :: int
  lw_name :: string
  lw_itemCount :: nat

definition countItemsPerList :: "list_item list \<Rightarrow> (int \<times> nat) list" where
  "countItemsPerList rows =
     foldl (\<lambda>listItemCounts item.
              let listId = li_list_id item
              in setProp idIndex listId
                   ((case map_of listItemCounts listId of None \<Rightarrow> 0 | Some c \<Rightarrow> c) + 1)
                   listItemCounts)
       [] rows"

definition findMaxList :: "(int \<times> nat) list \<Rightarrow> nat \<times> int option" where
  "findMaxList entries =
     foldl (\<lambda>(maxCount, maxListId) (listId, count).
              if count > maxCount then (count, Some listId) else (maxCount, maxListId))
       (0, None) entries"

definition listWithMostItemsOf :: "gift_list list \<Rightarrow> list_item list \<Rightarrow> list_with_most_items option" where
  "listWithMostItemsOf lists' listItemsCount =
     (case findMaxList (countItemsPerList listItemsCount) of
        (maxCount, maxListId) \<Rightarrow>
          if truthyId maxListId then
            (case find (\<lambda>l. Some (gl_id l) = maxListId) lists' of
               None \<Rightarrow> None
             | Some maxList \<Rightarrow>
                 Some \<lparr>lw_id = gl_id maxList,
                       lw_name = strOr (gl_name maxList) ''Unnamed List'',
                       lw_itemCount = maxCount\<rparr>)
          else None)"

subsection \<open>Most active day\<close>

record day_data =
  dd_date :: int
  dd_datetime :: int
  dd_count :: nat

definition groupStep :: "(int \<times> day_data) list \<Rightarrow> list_item \<Rightarrow> js_error + (int \<times> day_data) list" where
  "groupStep itemsByDate item =
     (case li_created_at item of
        None \<Rightarrow> Inr itemsByDate
      | Some created \<Rightarrow>
          if truthyId (li_suggested_by item) then Inr itemsByDate
          else
            (case toISOString (dateOfTimestamp created) of
               Inl e \<Rightarrow> Inl e
             | Inr isoText \<Rightarrow>
                 (let dateKey = isoDatePart isoText;
                      obj = (case map_of itemsByDate dateKey of
                               None \<Rightarrow> setProp noIndex dateKey
                                         \<lparr>dd_date = dateKey, dd_datetime = created, dd_count = 0\<rparr>
                                         itemsByDate
                             | Some _ \<Rightarrow> itemsByDate)
                  in Inr (map (\<lambda>(k, d). if k = dateKey then (k, d\<lparr>dd_count := dd_count d + 1\<rparr>)
                                         else (k, d)) obj))))"

fun groupByDate :: "list_item list \<Rightarrow> (int \<times> day_data) list \<Rightarrow> js_error + (int \<times> day_data) list" where
  "groupByDate [] itemsByDate = Inr itemsByDate"
| "groupByDate (item # rest) itemsByDate =
     (case groupStep itemsByDate item of
        Inl e \<Rightarrow> Inl e
      | Inr obj \<Rightarrow> groupByDate rest obj)"

definition findMaxDay :: "day_data list \<Rightarrow> day_data option" where
  "findMaxDay days =
     snd (foldl (\<lambda>(maxDayCount, maxDay) dayData.
                   if dd_count dayData > maxDayCount then (dd_count dayData, Some dayData)
                   else (maxDayCount, maxDay))
            (0, None) days)"

subsection \<open>Suggestion tally\<close>

record suggester_count =
  suggested_by :: int
  count :: nat
  name :: "string option"

definition countSuggested :: "list_item list \<Rightarrow> (int \<times> nat) list" where
  "countSuggested suggestedGifts =
     foldl (\<lambda>suggestedGiftCounts gift.
              (case li_suggested_by gift of
                 None \<Rightarrow> suggestedGiftCounts
               | Some suggesterId \<Rightarrow>
                   if suggesterId \<noteq> 0 then
                     setProp idIndex suggesterId
                       ((case map_of suggestedGiftCounts suggesterId of None \<Rightarrow> 0 | Some c \<Rightarrow> c) + 1)
                       suggestedGiftCounts
                   else suggestedGiftCounts))
       [] suggestedGifts"

text \<open>
  \<open>.sort((a, b) => b.count - a.count)\<close>: the sort of an array is stable, so entries of
  equal count keep the order of \<open>Object.entries\<close>.
\<close>

definition sortByCount :: "suggester_count list \<Rightarrow> suggester_count list" where
  "sortByCount arr = sort_key (\<lambda>e. - int (count e)) arr"

definition suggestedGiftCountsOf :: "list_item list \<Rightarrow> suggester_count list" where
  "suggestedGiftCountsOf suggestedGifts =
     sortByCount (map (\<lambda>(s, c). \<lparr>suggested_by = s, count = c, name = None\<rparr>)
                    (countSuggested suggestedGifts))"

text \<open>A template literal prints \<open>null\<close> as the text \<open>null\<close>.\<close>

definition templ :: "string option \<Rightarrow> string" where
  "templ s = (case s of None \<Rightarrow> ''null'' | Some x \<Rightarrow> x)"

definition profileMapOf :: "profile list \<Rightarrow> (int \<rightharpoonup> string)" where
  "profileMapOf suggestedInfo =
     foldl (\<lambda>profileMap p. profileMap(pr_id p \<mapsto> templ (pr_first_name p) @ '' '' @ templ (pr_last_name p)))
       Map.empty suggestedInfo"

definition addNames :: "profile list \<Rightarrow> suggester_count list \<Rightarrow> suggester_count list" where
  "addNames suggestedInfo arr =
     map (\<lambda>item. item\<lparr>name := Some (strOr (profileMapOf suggestedInfo (suggested_by item)) ''Unknown'')\<rparr>) arr"

section \<open>The store client\<close>

text \<open>
  Every query resolves to an object with \<open>data\<close> and \<open>error\<close> (and \<open>count\<close> for a
  counting query), each of which may be \<open>null\<close>. Of an error only \<open>message\<close> is read;
  \<open>code\<close> is the store's error code.
\<close>

record pg_error =
  message :: string
  code :: string

record 'a response =
  data :: "'a option"
  error :: "pg_error option"

record count_response =
  itemsCount :: "nat option"
  itemsCountError :: "pg_error option"

text \<open>
  The queries that \<open>calculatePatientData\<close> builds, by table and filters, in the order
  of the source; a bound on \<open>created_at\<close> is the ISO text passed, that is its time value.
\<close>

datatype query =
    ProfileById int
  | PurchasesBetween int int int
  | ItemsOfPurchases "int list"
  | PurchasesFromUntil int int int
  | CountItemsOfPurchases "int list"
  | ListsBetween int int int
  | ItemsOfLists "int list"
  | ListsOwnedBy int
  | ItemsOfListsBetween "int list" int int
  | OwnItemsOfListsBetween "int list" int int
  | SuggestedItemsOfListsBetween "int list" int int
  | ProfilesIn "int list"

record supabase =
  profileById :: "int \<Rightarrow> profile response"
  purchasesBetween :: "int \<Rightarrow> int \<Rightarrow> int \<Rightarrow> purchase list response"
  itemsOfPurchases :: "int list \<Rightarrow> list_item list response"
  purchasesFromUntil :: "int \<Rightarrow> int \<Rightarrow> int \<Rightarrow> purchase list response"
  countItemsOfPurchases :: "int list \<Rightarrow> count_response"
  listsBetween :: "int \<Rightarrow> int \<Rightarrow> int \<Rightarrow> gift_list list response"
  itemsOfLists :: "int list \<Rightarrow> list_item list response"
  listsOwnedBy :: "int \<Rightarrow> gift_list list response"
  itemsOfListsBetween :: "int list \<Rightarrow> int \<Rightarrow> int \<Rightarrow> list_item list response"
  ownItemsOfListsBetween :: "int list \<Rightarrow> int \<Rightarrow> int \<Rightarrow> list_item list response"
  suggestedItemsOfListsBetween :: "int list \<Rightarrow> int \<Rightarrow> int \<Rightarrow> list_item list response"
  profilesIn :: "int list \<Rightarrow> profile list response"

text \<open>\<open>data || []\<close> and \<open>data?.map(...) || []\<close>.\<close>

definition orEmpty :: "'a list option \<Rightarrow> 'a list" where
  "orEmpty d = (case d of None \<Rightarrow> [] | Some xs \<Rightarrow> xs)"

section \<open>The report\<close>

text \<open>\<open>year\<close> is \<open>parseInt(year)\<close>, the year given (\<open>None\<close> is \<open>NaN\<close>).\<close>

record most_expensive_gift =
  title :: string
  price :: real
  thumbnail_url :: "string option"

record purchase_timing =
  earlyBird :: nat
  onTime :: nat
  lastMinute :: nat

record wrapped_stats =
  totalGiftsGiven :: nat
  totalGiftsReceived :: nat
  mostExpensiveGift :: most_expensive_gift
  totalSpending :: real
  peopleExchangedWith :: nat
  mostPopularCategory :: string
  giftGivingStreak :: nat
  santaScore :: nat
  lastMinutePurchases :: nat
  mostUsedRetailer :: string
  homemadeGifts :: nat
  purchaseTiming :: purchase_timing

record list_with_most =
  lm_name :: string
  itemCount :: nat

record most_active_day =
  date :: int
  datetime :: int
  dayItemCount :: nat
  items :: "list_item list option"

record list_stats =
  totalListsCreated :: nat
  listWithMostItems :: "list_with_most option"
  mostActiveDay :: "most_active_day option"
  suggestedGiftCounts :: "suggester_count list"

record wrapped_data =
  profileId :: int
  year :: "int option"
  stats :: wrapped_stats
  personalityType :: string
  personalityReason :: string
  listStats :: list_stats

section \<open>calculatePatientData\<close>

text \<open>
  Each block of the function is a definition of its own. A block that fetches returns its
  value together with the queries it has sent, in order; a block that can throw returns a
  sum. Logging is left out, except where a logged expression can throw; so is
  \<open>maxPrice\<close>, which is computed for the log alone.
\<close>

text \<open>Block 5: the last-minute count (two fetches; an error of either leaves 0).\<close>

definition countLastMinute :: "supabase \<Rightarrow> int \<Rightarrow> int \<Rightarrow> int \<Rightarrow> nat \<times> query list" where
  "countLastMinute sb pid lastMinuteStart lastMinuteEnd =
     (let r = purchasesFromUntil sb pid lastMinuteStart lastMinuteEnd;
          q = PurchasesFromUntil pid lastMinuteStart lastMinuteEnd
      in case error r of
           Some e \<Rightarrow> (0, [q])
         | None \<Rightarrow>
             (case data r of
                None \<Rightarrow> (0, [q])
              | Some lastMinutePurchaseData \<Rightarrow>
                  if lastMinutePurchaseData = [] then (0, [q])
                  else
                    (let lastMinutePurchaseIds = map pu_id lastMinutePurchaseData;
                         c = countItemsOfPurchases sb lastMinutePurchaseIds;
                         q' = CountItemsOfPurchases lastMinutePurchaseIds
                     in case itemsCountError c of
                          Some e \<Rightarrow> (0, [q, q'])
                        | None \<Rightarrow> ((case itemsCount c of None \<Rightarrow> 0 | Some n \<Rightarrow> n), [q, q']))))"

text \<open>Block 6: list statistics (neither error is looked at).\<close>

definition listStatistics :: "supabase \<Rightarrow> int \<Rightarrow> int \<Rightarrow> int \<Rightarrow> (nat \<times> list_with_most_items option) \<times> query list" where
  "listStatistics sb pid yearStart yearEnd =
     (let lists' = orEmpty (data (listsBetween sb pid yearStart yearEnd));
          q = ListsBetween pid yearStart yearEnd;
          totalListsCreated' = length lists'
      in if lists' \<noteq> [] then
           (let listIds = map gl_id lists';
                listItemsCount = orEmpty (data (itemsOfLists sb listIds))
            in ((totalListsCreated', listWithMostItemsOf lists' listItemsCount), [q, ItemsOfLists listIds]))
         else ((totalListsCreated', None), [q]))"

text \<open>
  The most active day, once the owned list ids are known and not empty. The branch that
  fetches the owned lists again when \<open>userListIdsForDay\<close> is empty cannot be reached there
  and is left out.
\<close>

definition findMostActiveDay ::
  "int \<Rightarrow> supabase \<Rightarrow> int list \<Rightarrow> int \<Rightarrow> int
     \<Rightarrow> (js_error + (day_data option \<times> list_item list option)) \<times> query list" where
  "findMostActiveDay tza sb userListIds yearStart yearEnd =
     (let r = itemsOfListsBetween sb userListIds yearStart yearEnd;
          q = ItemsOfListsBetween userListIds yearStart yearEnd
      in case error r of
           Some e \<Rightarrow> (Inr (None, None), [q])
         | None \<Rightarrow>
             (case data r of
                None \<Rightarrow> (Inr (None, None), [q])
              | Some userListItems \<Rightarrow>
                  if userListItems = [] then (Inr (None, None), [q])
                  else
                    (case groupByDate userListItems [] of
                       Inl e \<Rightarrow> (Inl e, [q])
                     | Inr itemsByDate \<Rightarrow>
                         (case findMaxDay (map snd itemsByDate) of
                            None \<Rightarrow> (Inr (None, None), [q])
                          | Some maxDay \<Rightarrow>
                              (case toISOString (setHours tza (dateOfDay (dd_date maxDay)) 0 0 0 0) of
                                 Inl e \<Rightarrow> (Inl e, [q])
                               | Inr dayStart \<Rightarrow>
                                   (case toISOString (setHours tza (dateOfDay (dd_date maxDay)) 23 59 59 999) of
                                      Inl e \<Rightarrow> (Inl e, [q])
                                    | Inr dayEnd \<Rightarrow>
                                        (let r' = ownItemsOfListsBetween sb userListIds dayStart dayEnd;
                                             q' = OwnItemsOfListsBetween userListIds dayStart dayEnd
                                         in case error r' of
                                              Some e \<Rightarrow> (Inr (Some maxDay, None), [q, q'])
                                            | None \<Rightarrow> (Inr (Some maxDay, Some (orEmpty (data r'))), [q, q']))))))))"

text \<open>
  The tally of suggestions, once the owned list ids are known and not empty.
  \<open>suggestedInfo.forEach\<close> is called without a check for \<open>null\<close>.
\<close>

definition tallySuggestions ::
  "supabase \<Rightarrow> int list \<Rightarrow> int \<Rightarrow> int \<Rightarrow> (js_error + suggester_count list) \<times> query list" where
  "tallySuggestions sb userListIds yearStart yearEnd =
     (let r = suggestedItemsOfListsBetween sb userListIds yearStart yearEnd;
          q = SuggestedItemsOfListsBetween userListIds yearStart yearEnd
      in case error r of
           Some e \<Rightarrow> (Inr [], [q])
         | None \<Rightarrow>
             (let suggestedGiftCountsArray = suggestedGiftCountsOf (orEmpty (data r));
                  suggesterIds = map suggested_by suggestedGiftCountsArray;
                  r' = profilesIn sb suggesterIds;
                  q' = ProfilesIn suggesterIds
              in case error r' of
                   Some e \<Rightarrow> (Inr suggestedGiftCountsArray, [q, q'])
                 | None \<Rightarrow>
                     (case data r' of
                        None \<Rightarrow> (Inl (TypeError ''Cannot read properties of null (reading forEach)''), [q, q'])
                      | Some suggestedInfo \<Rightarrow> (Inr (addNames suggestedInfo suggestedGiftCountsArray), [q, q']))))"

text \<open>The block from the fetch of the owned lists to the tally.\<close>

definition listActivity ::
  "int \<Rightarrow> supabase \<Rightarrow> int \<Rightarrow> int \<Rightarrow> int
     \<Rightarrow> (js_error + (day_data option \<times> list_item list option \<times> suggester_count list)) \<times> query list" where
  "listActivity tza sb pid yearStart yearEnd =
     (let r = listsOwnedBy sb pid;
          q = ListsOwnedBy pid
      in case error r of
           Some e \<Rightarrow> (Inr (None, None, []), [q])
         | None \<Rightarrow>
             (let userListIds = map gl_id (orEmpty (data r))
              in if userListIds = [] then (Inr (None, None, []), [q])
                 else
                   (case findMostActiveDay tza sb userListIds yearStart yearEnd of
                      (Inl e, qs) \<Rightarrow> (Inl e, q # qs)
                    | (Inr (mostActiveDay', itemsOnDay), qs) \<Rightarrow>
                        (case tallySuggestions sb userListIds yearStart yearEnd of
                           (Inl e, qs') \<Rightarrow> (Inl e, q # qs @ qs')
                         | (Inr suggestedGiftCountsArray, qs') \<Rightarrow>
                             (Inr (mostActiveDay', itemsOnDay, suggestedGiftCountsArray), q # qs @ qs')))))"

text \<open>Block 2: the line items of the purchases (no fetch for no purchase).\<close>

definition fetchListItems :: "supabase \<Rightarrow> int list \<Rightarrow> (js_error + list_item list) \<times> query list" where
  "fetchListItems sb purchaseIds =
     (if purchaseIds \<noteq> [] then
        (let r = itemsOfPurchases sb purchaseIds
         in case error r of
              Some itemsError \<Rightarrow>
                (Inl (Error (''Failed to fetch list items: '' @ message itemsError)), [ItemsOfPurchases purchaseIds])
            | None \<Rightarrow> (Inr (orEmpty (data r)), [ItemsOfPurchases purchaseIds]))
      else (Inr [], []))"

text \<open>The result object.\<close>

definition assemble ::
  "int \<Rightarrow> int option \<Rightarrow> list_item list \<Rightarrow> nat \<Rightarrow> nat \<times> list_with_most_items option
     \<Rightarrow> day_data option \<times> list_item list option \<times> suggester_count list \<Rightarrow> wrapped_data" where
  "assemble pid yr listItems lastMinutePurchases' ls act =
     \<lparr>profileId = pid,
      year = yr,
      stats =
        \<lparr>totalGiftsGiven = length listItems,
         totalGiftsReceived = 0,
         mostExpensiveGift =
           (case mostExpensiveItem listItems of
              None \<Rightarrow> \<lparr>title = [], price = 0, thumbnail_url = None\<rparr>
            | Some item \<Rightarrow>
                \<lparr>title = strOr (li_title item) [],
                 price = priceOf item,
                 thumbnail_url = (case li_thumbnail_url item of
                                    None \<Rightarrow> None
                                  | Some u \<Rightarrow> if u = [] then None else Some u)\<rparr>),
         totalSpending = spent listItems,
         peopleExchangedWith = 0,
         mostPopularCategory = [],
         giftGivingStreak = 0,
         santaScore = 0,
         lastMinutePurchases = lastMinutePurchases',
         mostUsedRetailer = [],
         homemadeGifts = 0,
         purchaseTiming = \<lparr>earlyBird = 0, onTime = 0, lastMinute = lastMinutePurchases'\<rparr>\<rparr>,
      personalityType = [],
      personalityReason = [],
      listStats =
        \<lparr>totalListsCreated = fst ls,
         listWithMostItems =
           (case snd ls of
              None \<Rightarrow> None
            | Some l \<Rightarrow> Some \<lparr>lm_name = lw_name l, itemCount = lw_itemCount l\<rparr>),
         mostActiveDay =
           (case fst act of
              None \<Rightarrow> None
            | Some d \<Rightarrow>
                Some \<lparr>date = dd_date d, datetime = dd_datetime d, dayItemCount = dd_count d,
                      items = fst (snd act)\<rparr>),
         suggestedGiftCounts = snd (snd act)\<rparr>\<rparr>"

text \<open>
  The function: the result or the error thrown, and the queries sent until then. The
  first \<open>toISOString\<close> calls are those of the log line that prints the year range, before
  the first fetch. \<open>pid\<close> is \<open>profileId\<close>, \<open>sb\<close> the client, \<open>yr\<close> the year.
\<close>

definition calculatePatientData ::
  "int \<Rightarrow> supabase \<Rightarrow> int \<Rightarrow> int option \<Rightarrow> (js_error + wrapped_data) \<times> query list" where
  "calculatePatientData tza sb pid yr =
     (case toISOString (newDate tza yr 0 1 0 0 0 0) of
        Inl e \<Rightarrow> (Inl e, [])
      | Inr yearStart \<Rightarrow>
     (case toISOString (newDate tza yr 11 31 23 59 59 999) of
        Inl e \<Rightarrow> (Inl e, [])
      | Inr yearEnd \<Rightarrow>
     (case error (profileById sb pid) of
        Some profileError \<Rightarrow>
          (Inl (Error (''Failed to fetch profile: '' @ message profileError)), [ProfileById pid])
      | None \<Rightarrow>
     (let r = purchasesBetween sb pid yearStart yearEnd;
          qs1 = [ProfileById pid, PurchasesBetween pid yearStart yearEnd]
      in case error r of
           Some purchasesError \<Rightarrow>
             (Inl (Error (''Failed to fetch purchases: '' @ message purchasesError)), qs1)
         | None \<Rightarrow>
     (case fetchListItems sb (map pu_id (orEmpty (data r))) of
        (Inl e, qs2) \<Rightarrow> (Inl e, qs1 @ qs2)
      | (Inr listItems, qs2) \<Rightarrow>
     (case toISOString (newDate tza yr 11 17 0 0 0 0) of
        Inl e \<Rightarrow> (Inl e, qs1 @ qs2)
      | Inr lastMinuteStart \<Rightarrow>
     (case toISOString (newDate tza yr 11 26 0 0 0 0) of
        Inl e \<Rightarrow> (Inl e, qs1 @ qs2)
      | Inr lastMinuteEnd \<Rightarrow>
     (case countLastMinute sb pid lastMinuteStart lastMinuteEnd of
        (lastMinutePurchases', qs3) \<Rightarrow>
     (case listStatistics sb pid yearStart yearEnd of
        (ls, qs4) \<Rightarrow>
     (case listActivity tza sb pid yearStart yearEnd of
        (Inl e, qs5) \<Rightarrow> (Inl e, qs1 @ qs2 @ qs3 @ qs4 @ qs5)
      | (Inr act, qs5) \<Rightarrow>
          (Inr (assemble pid yr listItems lastMinutePurchases' ls act),
           qs1 @ qs2 @ qs3 @ qs4 @ qs5)))))))))))"

section \<open>A store of four tables\<close>

text \<open>
  The store that the client queries: the rows of \<open>profiles\<close>, \<open>purchase\<close>, \<open>list_item\<close>
  and \<open>list\<close>, in the order in which the store returns them. Each query is answered as
  its filters say: \<open>eq\<close>, \<open>gte\<close>, \<open>lte\<close>, \<open>lt\<close>, \<open>in\<close>, \<open>is null\<close> and its negation (a
  comparison with SQL \<open>null\<close> selects nothing), \<open>order\<close> by \<open>created_at\<close> ascending, a
  count of the selected rows, and \<open>single()\<close>, which is an error unless exactly one row is
  selected. \<open>fails q\<close> is the error with which the fetch of \<open>q\<close> fails, if it does; a
  failed fetch carries no data.
\<close>

record database =
  profiles :: "profile list"
  purchases :: "purchase list"
  list_items :: "list_item list"
  gift_lists :: "gift_list list"

definition answer :: "(query \<Rightarrow> pg_error option) \<Rightarrow> query \<Rightarrow> 'a \<Rightarrow> 'a response" where
  "answer fails q rows =
     (case fails q of
        Some e \<Rightarrow> \<lparr>data = None, error = Some e\<rparr>
      | None \<Rightarrow> \<lparr>data = Some rows, error = None\<rparr>)"

definition noRows :: pg_error where
  "noRows = \<lparr>message = ''JSON object requested, multiple (or no) rows returned'', code = ''PGRST116''\<rparr>"

definition single :: "(query \<Rightarrow> pg_error option) \<Rightarrow> query \<Rightarrow> 'a list \<Rightarrow> 'a response" where
  "single fails q rows =
     (case fails q of
        Some e \<Rightarrow> \<lparr>data = None, error = Some e\<rparr>
      | None \<Rightarrow>
          (case rows of
             [row] \<Rightarrow> \<lparr>data = Some row, error = None\<rparr>
           | _ \<Rightarrow> \<lparr>data = None, error = Some noRows\<rparr>))"

definition purchaseIn :: "int list \<Rightarrow> list_item \<Rightarrow> bool" where
  "purchaseIn ids i = (case li_purchase_id i of None \<Rightarrow> False | Some p \<Rightarrow> p \<in> set ids)"

definition createdBetween :: "int \<Rightarrow> int \<Rightarrow> list_item \<Rightarrow> bool" where
  "createdBetween lo hi i = (case li_created_at i of None \<Rightarrow> False | Some t \<Rightarrow> lo \<le> t \<and> t \<le> hi)"

definition createdKey :: "list_item \<Rightarrow> int" where
  "createdKey i = (case li_created_at i of None \<Rightarrow> 0 | Some t \<Rightarrow> t)"

definition storeClient :: "database \<Rightarrow> (query \<Rightarrow> pg_error option) \<Rightarrow> supabase" where
  "storeClient db fails =
     \<lparr>profileById = (\<lambda>i.
        single fails (ProfileById i) (filter (\<lambda>p. pr_id p = i) (profiles db))),
      purchasesBetween = (\<lambda>u lo hi.
        answer fails (PurchasesBetween u lo hi)
          (filter (\<lambda>p. pu_purchase_user p = u \<and> lo \<le> pu_created_at p \<and> pu_created_at p \<le> hi)
             (purchases db))),
      itemsOfPurchases = (\<lambda>ids.
        answer fails (ItemsOfPurchases ids) (filter (purchaseIn ids) (list_items db))),
      purchasesFromUntil = (\<lambda>u lo hi.
        answer fails (PurchasesFromUntil u lo hi)
          (filter (\<lambda>p. pu_purchase_user p = u \<and> lo \<le> pu_created_at p \<and> pu_created_at p < hi)
             (purchases db))),
      countItemsOfPurchases = (\<lambda>ids.
        case fails (CountItemsOfPurchases ids) of
          Some e \<Rightarrow> \<lparr>itemsCount = None, itemsCountError = Some e\<rparr>
        | None \<Rightarrow> \<lparr>itemsCount = Some (length (filter (purchaseIn ids) (list_items db))),
                   itemsCountError = None\<rparr>),
      listsBetween = (\<lambda>u lo hi.
        answer fails (ListsBetween u lo hi)
          (filter (\<lambda>l. gl_owner_user_id l = u \<and> lo \<le> gl_created_at l \<and> gl_created_at l \<le> hi)
             (gift_lists db))),
      itemsOfLists = (\<lambda>ids.
        answer fails (ItemsOfLists ids) (filter (\<lambda>i. li_list_id i \<in> set ids) (list_items db))),
      listsOwnedBy = (\<lambda>u.
        answer fails (ListsOwnedBy u) (filter (\<lambda>l. gl_owner_user_id l = u) (gift_lists db))),
      itemsOfListsBetween = (\<lambda>ids lo hi.
        answer fails (ItemsOfListsBetween ids lo hi)
          (filter (\<lambda>i. li_list_id i \<in> set ids \<and> createdBetween lo hi i) (list_items db))),
      ownItemsOfListsBetween = (\<lambda>ids lo hi.
        answer fails (OwnItemsOfListsBetween ids lo hi)
          (sort_key createdKey
             (filter (\<lambda>i. li_list_id i \<in> set ids \<and> li_suggested_by i = None \<and> createdBetween lo hi i)
                (list_items db)))),
      suggestedItemsOfListsBetween = (\<lambda>ids lo hi.
        answer fails (SuggestedItemsOfListsBetween ids lo hi)
          (filter (\<lambda>i. li_list_id i \<in> set ids \<and> li_suggested_by i \<noteq> None \<and> createdBetween lo hi i)
             (list_items db))),
      profilesIn = (\<lambda>ids.
        answer fails (ProfilesIn ids) (filter (\<lambda>p. pr_id p \<in> set ids) (profiles db)))\<rparr>"

definition noFailure :: "query \<Rightarrow> pg_error option" where
  "noFailure q = None"

section \<open>Notions used in the statements\<close>


text \<open>The same for the entries of a count object: the first entry of greatest count.\<close>

definition firstMaxEntry :: "(int \<times> nat) list \<Rightarrow> int \<Rightarrow> nat \<Rightarrow> bool" where
  "firstMaxEntry es k c \<longleftrightarrow>
     (\<exists>pre post. es = pre @ (k, c) # post \<and> (\<forall>e\<in>set pre. snd e < c) \<and> (\<forall>e\<in>set post. snd e \<le> c))"

text \<open>
  The count object built from a list of keys: \<open>countItemsPerList\<close> builds it from the list
  ids of the rows, \<open>countSuggested\<close> from the truthy suggester ids.
\<close>

definition tallyKeys :: "int list \<Rightarrow> (int \<times> nat) list" where
  "tallyKeys ks =
     foldl (\<lambda>obj k. setProp idIndex k ((case map_of obj k of None \<Rightarrow> 0 | Some c \<Rightarrow> c) + 1) obj) [] ks"


text \<open>The number of rows of a list.\<close>

definition itemCountOf :: "list_item list \<Rightarrow> int \<Rightarrow> nat" where
  "itemCountOf rows k = length (filter (\<lambda>i. li_list_id i = k) rows)"

text \<open>
  The winner of a tie as the specification words it, not as the source computes it: of
  the list ids of greatest count, the one that the grouping pass meets first.
\<close>

definition firstEncounteredWinner :: "list_item list \<Rightarrow> int option" where
  "firstEncounteredWinner rows =
     find (\<lambda>k. \<forall>i\<in>set rows. itemCountOf rows (li_list_id i) \<le> itemCountOf rows k) (map li_list_id rows)"




section \<open>Example stores\<close>

text \<open>
  All examples are about profile 7 and the year 2024 on a host in UTC. The year window is
  then 1704067200000 (1 January 00:00:00.000) to 1735689599999 (31 December 23:59:59.999);
  1717243200000 is 1 June 2024, 12:00.
\<close>

definition itemOf :: "int \<Rightarrow> int option \<Rightarrow> int \<Rightarrow> js_value \<Rightarrow> int option \<Rightarrow> int option \<Rightarrow> list_item" where
  "itemOf i p l pr c s =
     \<lparr>li_id = i, li_purchase_id = p, li_list_id = l, li_title = None, li_price = pr, li_link = None,
      li_thumbnail_url = None, li_created_at = c, li_suggested_by = s\<rparr>"

definition profile7 :: profile where
  "profile7 = \<lparr>pr_id = 7, pr_first_name = Some ''Ada'', pr_last_name = Some ''Moss''\<rparr>"

text \<open>Profile 7 with no purchase and no list; a store without any profile.\<close>

definition emptyStore :: database where
  "emptyStore = \<lparr>profiles = [profile7], purchases = [], list_items = [], gift_lists = []\<rparr>"


text \<open>Profile 7 with one purchase of one item, made on 17 December 2024 at 12:00 UTC.\<close>

definition dec17Store :: database where
  "dec17Store =
     \<lparr>profiles = [profile7],
      purchases = [\<lparr>pu_id = 1, pu_purchase_user = 7, pu_created_at = 1734436800000\<rparr>],
      list_items = [itemOf 1 (Some 1) 5 (JNum 10) (Some 1734436800000) None],
      gift_lists = []\<rparr>"




text \<open>Two lists with one item each; the item of list 2 is the first row.\<close>

definition tiedLists :: "gift_list list" where
  "tiedLists =
     [\<lparr>gl_id = 1, gl_name = Some ''Books'', gl_created_at = 1704067200000, gl_owner_user_id = 7\<rparr>,
      \<lparr>gl_id = 2, gl_name = None, gl_created_at = 1704067200000, gl_owner_user_id = 7\<rparr>]"

definition tiedRows :: "list_item list" where
  "tiedRows = [itemOf 10 None 2 JNull (Some 1717243200000) None, itemOf 11 None 1 JNull (Some 1717243200000) None]"



text \<open>Profile 7 owns list 5, whose only item was suggested by the profile with id 0.\<close>

definition zeroStore :: database where
  "zeroStore =
     \<lparr>profiles = [profile7],
      purchases = [],
      list_items = [itemOf 30 None 5 JNull (Some 1717243200000) (Some 0)],
      gift_lists = [\<lparr>gl_id = 5, gl_name = None, gl_created_at = 1704067200000, gl_owner_user_id = 7\<rparr>]\<rparr>"

definition zeroReport :: wrapped_data where
  "zeroReport = projr (fst (calculatePatientData 0 (storeClient zeroStore noFailure) 7 (Some 2024)))"







section \<open>Properties\<close>

subsection \<open>The shape of a run\<close>

lemmas date_defs =
  newDate_def TimeClip_def UTC_def MakeDate_def MakeDay_def MakeTime_def DayFromYear_def
  DaysBeforeMonth_def InLeapYear_def msPerDay_def toISOString_def

lemmas run_defs =
  calculatePatientData_def storeClient_def noFailure_def single_def answer_def fetchListItems_def
  orEmpty_def countLastMinute_def listStatistics_def listActivity_def assemble_def purchaseIn_def
  profile7_def itemOf_def

lemma calc_InrE:
  assumes "fst (calculatePatientData tza sb pid yr) = Inr r"
  obtains yearStart yearEnd listItems qs2 lastMinuteStart lastMinuteEnd n qs3 ls qs4 act qs5 where
    "toISOString (newDate tza yr 0 1 0 0 0 0) = Inr yearStart"
    "toISOString (newDate tza yr 11 31 23 59 59 999) = Inr yearEnd"
    "error (profileById sb pid) = None"
    "error (purchasesBetween sb pid yearStart yearEnd) = None"
    "fetchListItems sb (map pu_id (orEmpty (data (purchasesBetween sb pid yearStart yearEnd)))) = (Inr listItems, qs2)"
    "toISOString (newDate tza yr 11 17 0 0 0 0) = Inr lastMinuteStart"
    "toISOString (newDate tza yr 11 26 0 0 0 0) = Inr lastMinuteEnd"
    "countLastMinute sb pid lastMinuteStart lastMinuteEnd = (n, qs3)"
    "listStatistics sb pid yearStart yearEnd = (ls, qs4)"
    "listActivity tza sb pid yearStart yearEnd = (Inr act, qs5)"
    "r = assemble pid yr listItems n ls act"
  using assms that
  by (auto simp: calculatePatientData_def Let_def split: sum.splits option.splits prod.splits)

lemma emptyStore_run:
  "fst (calculatePatientData 0 (storeClient emptyStore noFailure) 7 (Some 2024)) =
     Inr (assemble 7 (Some 2024) [] 0 (0, None) (None, None, []))"
  by (simp add: run_defs date_defs emptyStore_def)

subsection \<open>The windows\<close>

text \<open>
  C1. The claim puts the start of the last-minute window at 18 December, 00:00:00.000. The
  function builds the bound with \<open>new Date(year, 11, 17)\<close>, which is 17 December, under a
  comment that says 18 December. For 2024 on a host in UTC: 18 December 00:00 is the time
  value 1734480000000, the last-minute purchases are queried from 1734393600000
  (17 December 00:00) until 1735171200000 (26 December 00:00, exclusive), and a purchase
  of one item made on 17 December at noon is counted as a last-minute purchase.
\<close>

theorem lastMinute_window_starts_dec17:
  "newDate 0 (Some 2024) 11 18 0 0 0 0 = Some 1734480000000 \<and>
   PurchasesFromUntil 7 1734393600000 1735171200000
     \<in> set (snd (calculatePatientData 0 (storeClient dec17Store noFailure) 7 (Some 2024))) \<and>
   (\<exists>r. fst (calculatePatientData 0 (storeClient dec17Store noFailure) 7 (Some 2024)) = Inr r \<and>
        lastMinutePurchases (stats r) = 1)"
  by (simp add: run_defs date_defs dec17Store_def)

subsection \<open>Rejection of a year\<close>

text \<open>
  C6, as the claim states it, fails: for the year \<open>NaN\<close>, which \<open>parseInt\<close> gives for a
  text that is no number, the error thrown is the \<open>RangeError\<close> of \<open>toISOString\<close>, not an
  error named \<open>InvalidInput\<close>; the function has no check of its arguments.
\<close>

theorem nan_year_error_is_RangeError:
  "fst (calculatePatientData 0 (storeClient emptyStore noFailure) 7 None) =
     Inl (RangeError ''Invalid time value'') \<and>
   errorName (RangeError ''Invalid time value'') \<noteq> ''InvalidInput''"
  by (simp add: calculatePatientData_def toISOString_def newDate_def)

text \<open>
  C6, amended. When the year is \<open>NaN\<close>, or 1 January or 31 December of it lies outside the
  range of \<open>Date\<close>, the function throws \<open>RangeError: Invalid time value\<close> before it sends
  any query to the store.
\<close>

theorem year_rejected_by_toISOString:
  "newDate tza yr 0 1 0 0 0 0 = None \<or> newDate tza yr 11 31 23 59 59 999 = None \<Longrightarrow>
     calculatePatientData tza sb pid yr = (Inl (RangeError ''Invalid time value''), [])"
  by (auto simp: calculatePatientData_def toISOString_def split: option.splits)

theorem year_rejected_by_toISOString_witness:
  "newDate 0 None 0 1 0 0 0 0 = None \<and>
   calculatePatientData 0 (storeClient emptyStore noFailure) 7 None =
     (Inl (RangeError ''Invalid time value''), [])"
  using year_rejected_by_toISOString [of 0 None "storeClient emptyStore noFailure" 7]
  by (simp add: newDate_def)

subsection \<open>The assembled report\<close>

text \<open>
  C9. In every report that the function returns, \<open>stats.purchaseTiming.lastMinute\<close> equals
  \<open>stats.lastMinutePurchases\<close>.
\<close>

theorem lastMinute_fields_agree:
  "fst (calculatePatientData tza sb pid yr) = Inr r \<Longrightarrow>
     lastMinute (purchaseTiming (stats r)) = lastMinutePurchases (stats r)"
  by (erule calc_InrE) (simp add: assemble_def)

theorem lastMinute_fields_agree_witness:
  "fst (calculatePatientData 0 (storeClient emptyStore noFailure) 7 (Some 2024)) =
     Inr (assemble 7 (Some 2024) [] 0 (0, None) (None, None, [])) \<and>
   lastMinute (purchaseTiming (stats (assemble 7 (Some 2024) [] 0 (0, None) (None, None, [])))) =
     lastMinutePurchases (stats (assemble 7 (Some 2024) [] 0 (0, None) (None, None, [])))"
  using lastMinute_fields_agree [OF emptyStore_run] emptyStore_run
  by simp

subsection \<open>Spend and extremes\<close>














subsection \<open>List with most items\<close>

lemma set_insertKey: "set (insertKey ix k v obj) = insert (k, v) (set obj)"
  by (induction obj) (auto split: option.splits if_splits)

lemma keys_insertKey: "fst ` set (insertKey ix k v obj) = insert k (fst ` set obj)"
  by (simp add: set_insertKey)

lemma distinct_insertKey:
  "k \<notin> fst ` set obj \<Longrightarrow> distinct (map fst obj) \<Longrightarrow> distinct (map fst (insertKey ix k v obj))"
proof (induction obj)
  case Nil
  then show ?case by simp
next
  case (Cons e obj)
  obtain k' v' where e: "e = (k', v')" by (cases e)
  have "k' \<notin> fst ` set (insertKey ix k v obj)"
    using Cons.prems e by (auto simp: keys_insertKey)
  then show ?case using Cons e by (auto split: option.splits)
qed


lemma sorted_insertKey:
  assumes "sorted_wrt (<) (map fst obj)" "\<forall>k'\<in>fst ` set obj. 0 \<le> k' \<and> k' < 4294967295"
    "0 \<le> k" "k < 4294967295" "k \<notin> fst ` set obj"
  shows "sorted_wrt (<) (map fst (insertKey idIndex k v obj))"
  using assms
proof (induction obj)
  case Nil
  then show ?case by simp
next
  case (Cons e obj)
  obtain k' v' where e: "e = (k', v')" by (cases e)
  have r: "0 \<le> k'" "k' < 4294967295" "k \<noteq> k'" using Cons.prems e by auto
  show ?case
  proof (cases "k < k'")
    case True
    then have "insertKey idIndex k v (e # obj) = (k, v) # e # obj"
      using e r Cons.prems(3,4) by (simp add: idIndex_def)
    moreover have "\<forall>x\<in>set (map fst (e # obj)). k < x"
      using Cons.prems(1) True e by fastforce
    ultimately show ?thesis using Cons.prems(1) by simp
  next
    case False
    then have eq: "insertKey idIndex k v (e # obj) = e # insertKey idIndex k v obj"
      using e r Cons.prems(3,4) by (simp add: idIndex_def)
    have ih: "sorted_wrt (<) (map fst (insertKey idIndex k v obj))"
      using Cons by simp
    have "\<forall>x\<in>fst ` set (insertKey idIndex k v obj). k' < x"
      using Cons.prems(1) False r e by (auto simp: keys_insertKey)
    then show ?thesis using eq ih e by simp
  qed
qed

text \<open>Replacing the value of an existing key.\<close>

lemma keys_replace:
  "map fst (map (\<lambda>(k', v'). if k' = k then (k', v) else (k', v')) obj) = map fst obj"
  by (induction obj) auto


lemma map_of_replace:
  "map_of (map (\<lambda>(k', v'). if k' = k then (k', v) else (k', v')) obj) x =
     (if x = k then (case map_of obj k of None \<Rightarrow> None | Some _ \<Rightarrow> Some v) else map_of obj x)"
  by (induction obj) auto

lemma map_of_insertKey:
  "distinct (map fst obj) \<Longrightarrow> k \<notin> fst ` set obj \<Longrightarrow>
     map_of (insertKey ix k v obj) x = (if x = k then Some v else map_of obj x)"
proof -
  assume d: "distinct (map fst obj)" and n: "k \<notin> fst ` set obj"
  have d': "distinct (map fst (insertKey ix k v obj))" using n d by (rule distinct_insertKey)
  show ?thesis
  proof (cases "x = k")
    case True
    have "(k, v) \<in> set (insertKey ix k v obj)" by (simp add: set_insertKey)
    then show ?thesis using d' True by simp
  next
    case False
    have "\<And>y. (map_of (insertKey ix k v obj) x = Some y) = (map_of obj x = Some y)"
      using d d' False by (simp add: set_insertKey)
    then show ?thesis using False by (metis option.exhaust)
  qed
qed

text \<open>
  The counting of keys in an object, as \<open>countItemsPerList\<close> and \<open>countSuggested\<close> do it.
\<close>

lemma tallyKeys_snoc:
  "tallyKeys (ks @ [k]) =
     setProp idIndex k ((case map_of (tallyKeys ks) k of None \<Rightarrow> 0 | Some c \<Rightarrow> c) + 1) (tallyKeys ks)"
  by (simp add: tallyKeys_def)

lemma tallyKeys_inv:
  "distinct (map fst (tallyKeys ks)) \<and>
   (\<forall>x. map_of (tallyKeys ks) x = (if x \<in> set ks then Some (count_list ks x) else None))"
proof (induction ks rule: rev_induct)
  case Nil
  show ?case by (simp add: tallyKeys_def)
next
  case (snoc k ks)
  let ?obj = "tallyKeys ks"
  have d: "distinct (map fst ?obj)" and m: "\<And>x. map_of ?obj x = (if x \<in> set ks then Some (count_list ks x) else None)"
    using snoc by auto
  have keys: "fst ` set ?obj = set ks"
  proof -
    have "\<And>x. (x \<in> fst ` set ?obj) = (x \<in> set ks)"
      using m by (metis map_of_eq_None_iff option.distinct(1))
    then show ?thesis by blast
  qed
  show ?case
  proof (cases "k \<in> set ks")
    case True
    then have s: "tallyKeys (ks @ [k]) =
        map (\<lambda>(k', v'). if k' = k then (k', Suc (count_list ks k)) else (k', v')) ?obj"
      using keys m by (simp add: tallyKeys_snoc setProp_def)
    have "distinct (map fst (tallyKeys (ks @ [k])))" unfolding s keys_replace by (rule d)
    moreover have "\<forall>x. map_of (tallyKeys (ks @ [k])) x =
        (if x \<in> set (ks @ [k]) then Some (count_list (ks @ [k]) x) else None)"
      using True m by (simp add: s map_of_replace)
    ultimately show ?thesis by blast
  next
    case False
    then have s: "tallyKeys (ks @ [k]) = insertKey idIndex k 1 ?obj"
      using keys m by (simp add: tallyKeys_snoc setProp_def)
    have n: "k \<notin> fst ` set ?obj" using False keys by simp
    have "distinct (map fst (tallyKeys (ks @ [k])))" using n d by (simp add: s distinct_insertKey)
    moreover have "\<forall>x. map_of (tallyKeys (ks @ [k])) x =
        (if x \<in> set (ks @ [k]) then Some (count_list (ks @ [k]) x) else None)"
      using False m d n by (simp add: s map_of_insertKey)
    ultimately show ?thesis by blast
  qed
qed

lemma tallyKeys_keys: "fst ` set (tallyKeys ks) = set ks"
proof -
  have "\<And>x. (x \<in> fst ` set (tallyKeys ks)) = (x \<in> set ks)"
    using tallyKeys_inv [of ks] by (metis map_of_eq_None_iff option.distinct(1))
  then show ?thesis by blast
qed

lemma tallyKeys_entry: "(k, c) \<in> set (tallyKeys ks) \<longleftrightarrow> k \<in> set ks \<and> c = count_list ks k"
  using tallyKeys_inv [of ks] by (metis map_of_eq_Some_iff option.distinct(1) option.inject)


lemma tallyKeys_sorted:
  "\<forall>k\<in>set ks. 0 \<le> k \<and> k < 4294967295 \<Longrightarrow> sorted_wrt (<) (map fst (tallyKeys ks))"
proof (induction ks rule: rev_induct)
  case Nil
  show ?case by (simp add: tallyKeys_def)
next
  case (snoc k ks)
  let ?obj = "tallyKeys ks"
  have m: "map_of ?obj k = (if k \<in> set ks then Some (count_list ks k) else None)"
    using tallyKeys_inv [of ks] by simp
  have ih: "sorted_wrt (<) (map fst ?obj)" using snoc by simp
  show ?case
  proof (cases "k \<in> set ks")
    case True
    then have s: "tallyKeys (ks @ [k]) =
        map (\<lambda>(k', v'). if k' = k then (k', Suc (count_list ks k)) else (k', v')) ?obj"
      using m by (simp add: tallyKeys_snoc setProp_def tallyKeys_keys)
    show ?thesis using ih by (simp only: s keys_replace)
  next
    case False
    then have s: "tallyKeys (ks @ [k]) = insertKey idIndex k 1 ?obj"
      using m by (simp add: tallyKeys_snoc setProp_def tallyKeys_keys)
    have "sorted_wrt (<) (map fst (insertKey idIndex k 1 ?obj))"
      using ih snoc.prems False by (intro sorted_insertKey) (auto simp: tallyKeys_keys)
    then show ?thesis by (simp only: s)
  qed
qed

lemma countItemsPerList_tally: "countItemsPerList rows = tallyKeys (map li_list_id rows)"
  by (simp add: countItemsPerList_def tallyKeys_def foldl_map Let_def)

lemma count_list_itemCountOf: "count_list (map li_list_id rows) k = itemCountOf rows k"
  by (induction rows) (auto simp: itemCountOf_def)

lemma firstMaxEntry_Cons:
  assumes "firstMaxEntry es k c" "snd e < c"
  shows "firstMaxEntry (e # es) k c"
proof -
  from assms(1) obtain pre post where d: "es = pre @ (k, c) # post" "\<forall>x\<in>set pre. snd x < c"
    "\<forall>x\<in>set post. snd x \<le> c"
    unfolding firstMaxEntry_def by blast
  have "e # es = (e # pre) @ (k, c) # post" using d(1) by simp
  moreover have "\<forall>x\<in>set (e # pre). snd x < c" using d(2) assms(2) by simp
  ultimately show ?thesis unfolding firstMaxEntry_def using d(3) by blast
qed

lemma firstMaxEntry_head:
  assumes "\<forall>x\<in>set es. snd x \<le> c"
  shows "firstMaxEntry ((k, c) # es) k c"
proof -
  have "(k, c) # es = [] @ (k, c) # es" by simp
  moreover have "\<forall>x\<in>set []. snd x < c" by simp
  ultimately show ?thesis unfolding firstMaxEntry_def using assms by blast
qed

lemma findMax_fold:
  "(foldl (\<lambda>(maxCount, maxListId) (listId, count).
              if count > maxCount then (count, Some listId) else (maxCount, maxListId)) (mc, ml) es = (mc, ml)
      \<and> (\<forall>e\<in>set es. snd e \<le> mc)) \<or>
   (\<exists>k c. foldl (\<lambda>(maxCount, maxListId) (listId, count).
              if count > maxCount then (count, Some listId) else (maxCount, maxListId)) (mc, ml) es = (c, Some k)
      \<and> mc < c \<and> firstMaxEntry es k c)"
proof (induction es arbitrary: mc ml)
  case Nil
  show ?case by simp
next
  case (Cons e es)
  let ?g = "\<lambda>(maxCount, maxListId) (listId, count).
              if count > maxCount then (count, Some listId) else (maxCount, maxListId)"
  obtain k' v' where e: "e = (k', v')" by (cases e)
  show ?case
  proof (cases "v' > mc")
    case True
    then have step: "foldl ?g (mc, ml) (e # es) = foldl ?g (v', Some k') es" using e by simp
    from Cons.IH [of v' "Some k'"] show ?thesis
    proof (elim disjE conjE exE)
      assume a: "foldl ?g (v', Some k') es = (v', Some k')" "\<forall>x\<in>set es. snd x \<le> v'"
      have "firstMaxEntry (e # es) k' v'" using a(2) e by (simp add: firstMaxEntry_head)
      then have "foldl ?g (mc, ml) (e # es) = (v', Some k') \<and> mc < v' \<and> firstMaxEntry (e # es) k' v'"
        using step a(1) True by simp
      then show ?thesis by blast
    next
      fix k c
      assume a: "foldl ?g (v', Some k') es = (c, Some k)" "v' < c" "firstMaxEntry es k c"
      have "firstMaxEntry (e # es) k c" using a(3) a(2) e by (simp add: firstMaxEntry_Cons)
      then have "foldl ?g (mc, ml) (e # es) = (c, Some k) \<and> mc < c \<and> firstMaxEntry (e # es) k c"
        using step a(1,2) True by simp
      then show ?thesis by blast
    qed
  next
    case False
    then have step: "foldl ?g (mc, ml) (e # es) = foldl ?g (mc, ml) es" using e by simp
    from Cons.IH [of mc ml] show ?thesis
    proof (elim disjE conjE exE)
      assume a: "foldl ?g (mc, ml) es = (mc, ml)" "\<forall>x\<in>set es. snd x \<le> mc"
      have "\<forall>x\<in>set (e # es). snd x \<le> mc" using a(2) False e by simp
      then show ?thesis using step a(1) by simp
    next
      fix k c
      assume a: "foldl ?g (mc, ml) es = (c, Some k)" "mc < c" "firstMaxEntry es k c"
      have "snd e < c" using a(2) False e by simp
      with a(3) have "firstMaxEntry (e # es) k c" by (rule firstMaxEntry_Cons)
      then have "foldl ?g (mc, ml) (e # es) = (c, Some k) \<and> mc < c \<and> firstMaxEntry (e # es) k c"
        using step a(1,2) by simp
      then show ?thesis by blast
    qed
  qed
qed

lemma findMaxList_first_max:
  assumes "es \<noteq> []" "\<forall>e\<in>set es. 0 < snd e"
  shows "\<exists>k c. findMaxList es = (c, Some k) \<and> firstMaxEntry es k c"
proof -
  from findMax_fold [of 0 None es] show ?thesis
  proof (elim disjE conjE exE)
    assume "\<forall>e\<in>set es. snd e \<le> 0"
    then have False using assms by (cases es) auto
    then show ?thesis ..
  next
    fix k c
    assume "foldl (\<lambda>(maxCount, maxListId) (listId, count).
              if count > maxCount then (count, Some listId) else (maxCount, maxListId)) (0, None) es = (c, Some k)"
      "firstMaxEntry es k c"
    then show ?thesis by (auto simp: findMaxList_def)
  qed
qed

lemma firstMaxEntry_sorted:
  assumes "firstMaxEntry es k c" "sorted_wrt (<) (map fst es)"
  shows "(k, c) \<in> set es \<and> (\<forall>e\<in>set es. snd e \<le> c) \<and> (\<forall>e\<in>set es. snd e = c \<longrightarrow> k \<le> fst e)"
proof -
  from assms(1) obtain pre post where d: "es = pre @ (k, c) # post" "\<forall>x\<in>set pre. snd x < c"
    "\<forall>x\<in>set post. snd x \<le> c"
    unfolding firstMaxEntry_def by blast
  have later: "\<forall>x\<in>set post. k < fst x"
    using assms(2) d(1) by (simp add: sorted_wrt_append)
  have mem: "\<And>e. e \<in> set es \<Longrightarrow> e \<in> set pre \<or> e = (k, c) \<or> e \<in> set post" using d(1) by auto
  have "(k, c) \<in> set es" using d(1) by simp
  moreover have "\<forall>e\<in>set es. snd e \<le> c"
  proof
    fix e assume "e \<in> set es"
    from mem [OF this] show "snd e \<le> c" using d(2,3) by fastforce
  qed
  moreover have "\<forall>e\<in>set es. snd e = c \<longrightarrow> k \<le> fst e"
  proof (intro ballI impI)
    fix e assume "e \<in> set es" "snd e = c"
    from mem [OF this(1)] show "k \<le> fst e"
    proof (elim disjE)
      assume "e \<in> set pre"
      then have "snd e < c" using d(2) by simp
      then show ?thesis using \<open>snd e = c\<close> by simp
    next
      assume "e = (k, c)"
      then show ?thesis by simp
    next
      assume "e \<in> set post"
      then have "k < fst e" using later by simp
      then show ?thesis by simp
    qed
  qed
  ultimately show ?thesis by blast
qed

text \<open>
  C4, amended. When the rows fetched are not empty, belong to lists of \<open>lists\<close> and have
  list ids from 1 to \<open>2^32 - 2\<close>, a list is reported; its item count is the number of
  rows of that list and is the greatest of all lists; among the lists of that greatest
  count it is the one of smallest id; its name is that of the first list with this id, or
  \<open>Unnamed List\<close>. The result is a function of the lists and rows alone.
\<close>

theorem listWithMostItems_smallest_id:
  assumes "rows \<noteq> []"
    and "\<forall>i\<in>set rows. 0 < li_list_id i \<and> li_list_id i < 4294967295"
    and "\<forall>i\<in>set rows. \<exists>l\<in>set lists'. gl_id l = li_list_id i"
  shows "\<exists>w l. listWithMostItemsOf lists' rows = Some w \<and>
           lw_id w \<in> li_list_id ` set rows \<and>
           lw_itemCount w = itemCountOf rows (lw_id w) \<and>
           (\<forall>k. itemCountOf rows k \<le> lw_itemCount w) \<and>
           (\<forall>k. itemCountOf rows k = lw_itemCount w \<longrightarrow> lw_id w \<le> k) \<and>
           find (\<lambda>l. gl_id l = lw_id w) lists' = Some l \<and>
           lw_name w = strOr (gl_name l) ''Unnamed List''"
proof -
  let ?ks = "map li_list_id rows"
  let ?es = "countItemsPerList rows"
  have es: "?es = tallyKeys ?ks" by (rule countItemsPerList_tally)
  have entry: "\<And>k c. (k, c) \<in> set ?es \<longleftrightarrow> k \<in> set ?ks \<and> c = itemCountOf rows k"
    by (simp only: es tallyKeys_entry count_list_itemCountOf)
  have pos: "\<And>k. k \<in> set ?ks \<Longrightarrow> 0 < itemCountOf rows k"
    by (auto simp: itemCountOf_def filter_empty_conv)
  have zero: "\<And>k. k \<notin> set ?ks \<Longrightarrow> itemCountOf rows k = 0"
    by (auto simp: itemCountOf_def filter_empty_conv)
  have ne: "?es \<noteq> []"
  proof -
    obtain i where "i \<in> set rows" using assms(1) by (cases rows) auto
    then have "(li_list_id i, itemCountOf rows (li_list_id i)) \<in> set ?es" by (simp add: entry)
    then show ?thesis by auto
  qed
  have allpos: "\<forall>e\<in>set ?es. 0 < snd e"
  proof
    fix e assume "e \<in> set ?es"
    then have "fst e \<in> set ?ks \<and> snd e = itemCountOf rows (fst e)" using entry [of "fst e" "snd e"] by simp
    then show "0 < snd e" using pos by simp
  qed
  have srt: "sorted_wrt (<) (map fst ?es)"
    unfolding es using assms(2) by (intro tallyKeys_sorted) auto
  from findMaxList_first_max [OF ne allpos] obtain k c where
    fm: "findMaxList ?es = (c, Some k)" and first: "firstMaxEntry ?es k c" by blast
  from firstMaxEntry_sorted [OF first srt] have
    in_es: "(k, c) \<in> set ?es" and
    greatest: "\<forall>e\<in>set ?es. snd e \<le> c" and
    smallest: "\<forall>e\<in>set ?es. snd e = c \<longrightarrow> k \<le> fst e" by blast+
  have kin: "k \<in> set ?ks" and c: "c = itemCountOf rows k" using in_es entry by auto
  have kpos: "k \<noteq> 0" using kin assms(2) by auto
  obtain l where l: "find (\<lambda>l. gl_id l = k) lists' = Some l"
  proof -
    have "\<exists>l\<in>set lists'. gl_id l = k" using kin assms(3) by auto
    then have "find (\<lambda>l. gl_id l = k) lists' \<noteq> None" by (auto simp: find_None_iff)
    then show ?thesis using that by blast
  qed
  have gl: "gl_id l = k" using l by (auto dest: find_Some_iff [THEN iffD1])
  let ?w = "\<lparr>lw_id = k, lw_name = strOr (gl_name l) ''Unnamed List'', lw_itemCount = c\<rparr>"
  have res: "listWithMostItemsOf lists' rows = Some ?w"
    using fm l kpos gl by (simp add: listWithMostItemsOf_def truthyId_def)
  have g: "\<forall>k'. itemCountOf rows k' \<le> c"
  proof
    fix k'
    show "itemCountOf rows k' \<le> c"
    proof (cases "k' \<in> set ?ks")
      case True
      then have "(k', itemCountOf rows k') \<in> set ?es" by (simp add: entry)
      then show ?thesis using greatest by fastforce
    next
      case False
      then show ?thesis using zero by simp
    qed
  qed
  have s: "\<forall>k'. itemCountOf rows k' = c \<longrightarrow> k \<le> k'"
  proof (intro allI impI)
    fix k' assume t: "itemCountOf rows k' = c"
    have "0 < c" using c pos kin by simp
    then have "k' \<in> set ?ks" using t zero by (cases "k' \<in> set ?ks") auto
    then have "(k', c) \<in> set ?es" using t by (simp add: entry)
    then show "k \<le> k'" using smallest by fastforce
  qed
  have "listWithMostItemsOf lists' rows = Some ?w \<and>
           lw_id ?w \<in> li_list_id ` set rows \<and>
           lw_itemCount ?w = itemCountOf rows (lw_id ?w) \<and>
           (\<forall>k. itemCountOf rows k \<le> lw_itemCount ?w) \<and>
           (\<forall>k. itemCountOf rows k = lw_itemCount ?w \<longrightarrow> lw_id ?w \<le> k) \<and>
           find (\<lambda>l. gl_id l = lw_id ?w) lists' = Some l \<and>
           lw_name ?w = strOr (gl_name l) ''Unnamed List''"
    using res kin c g s l by simp
  then show ?thesis by blast
qed

lemma tied_eval:
  "listWithMostItemsOf tiedLists tiedRows = Some \<lparr>lw_id = 1, lw_name = ''Books'', lw_itemCount = 1\<rparr>"
  by (simp add: listWithMostItemsOf_def countItemsPerList_def findMaxList_def setProp_def idIndex_def
      truthyId_def strOr_def tiedLists_def tiedRows_def itemOf_def)

text \<open>
  C4, as the claim states it, fails on a tie. Lists 1 and 2 have one item each and the item
  of list 2 comes first in the rows: the grouping pass meets list 2 first, but list 1 is
  reported. The counts are kept in an object whose keys are the list ids, and
  \<open>Object.entries\<close> enumerates such keys in ascending numeric order, not in the order in
  which they were added.
\<close>

theorem tie_goes_to_smaller_id:
  "listWithMostItemsOf tiedLists tiedRows = Some \<lparr>lw_id = 1, lw_name = ''Books'', lw_itemCount = 1\<rparr> \<and>
   firstEncounteredWinner tiedRows = Some 2"
  by (simp add: tied_eval) (simp add: firstEncounteredWinner_def itemCountOf_def tiedRows_def itemOf_def)

theorem listWithMostItems_smallest_id_witness:
  "map li_list_id tiedRows = [2, 1] \<and>
   map gl_id tiedLists = [1, 2] \<and>
   (\<exists>w l. listWithMostItemsOf tiedLists tiedRows = Some w \<and>
           lw_id w \<in> li_list_id ` set tiedRows \<and>
           lw_itemCount w = itemCountOf tiedRows (lw_id w) \<and>
           (\<forall>k. itemCountOf tiedRows k \<le> lw_itemCount w) \<and>
           (\<forall>k. itemCountOf tiedRows k = lw_itemCount w \<longrightarrow> lw_id w \<le> k) \<and>
           find (\<lambda>l. gl_id l = lw_id w) tiedLists = Some l \<and>
           lw_name w = strOr (gl_name l) ''Unnamed List'')"
proof -
  have e1: "map li_list_id tiedRows = [2, 1]" by (simp add: tiedRows_def itemOf_def)
  have e2: "map gl_id tiedLists = [1, 2]" by (simp add: tiedLists_def)
  have h1: "tiedRows \<noteq> []" by (simp add: tiedRows_def)
  have h2: "\<forall>i\<in>set tiedRows. 0 < li_list_id i \<and> li_list_id i < 4294967295"
    by (simp add: tiedRows_def itemOf_def)
  have h3: "\<forall>i\<in>set tiedRows. \<exists>l\<in>set tiedLists. gl_id l = li_list_id i"
    by (simp add: tiedRows_def tiedLists_def itemOf_def)
  show ?thesis using e1 e2 listWithMostItems_smallest_id [OF h1 h2 h3] by blast
qed

subsection \<open>Suggestion tally\<close>


















subsection \<open>A suggester with id 0, a profile that is not found, lists without items\<close>

text \<open>
  C8. The claim holds for suggester ids other than 0 and fails for the id 0. The grouping
  by day skips an item on \<open>if (item.suggested_by)\<close> and the tally counts it on
  \<open>if (suggesterId)\<close>: both test truthiness, and 0 is falsy, while the queries beside them
  test for \<open>null\<close>. For a list of profile 7 whose only item was suggested by profile 0, the
  item is counted in the most active day (item count 1, with an empty item list, since
  the fetch of that day's items excludes it) and is missing from the tally.
\<close>

theorem suggester_zero_grouped_and_not_tallied:
  "fst (calculatePatientData 0 (storeClient zeroStore noFailure) 7 (Some 2024)) = Inr zeroReport \<and>
   map li_suggested_by (list_items zeroStore) = [Some 0] \<and>
   map_option dayItemCount (mostActiveDay (listStats zeroReport)) = Some 1 \<and>
   map_option items (mostActiveDay (listStats zeroReport)) = Some (Some []) \<and>
   suggestedGiftCounts (listStats zeroReport) = []"
proof -
  have "\<not> isl (fst (calculatePatientData 0 (storeClient zeroStore noFailure) 7 (Some 2024)))"
    by code_simp
  then have "fst (calculatePatientData 0 (storeClient zeroStore noFailure) 7 (Some 2024)) = Inr zeroReport"
    by (simp add: zeroReport_def)
  moreover have "map li_suggested_by (list_items zeroStore) = [Some 0] \<and>
      map_option dayItemCount (mostActiveDay (listStats zeroReport)) = Some 1 \<and>
      map_option items (mostActiveDay (listStats zeroReport)) = Some (Some []) \<and>
      suggestedGiftCounts (listStats zeroReport) = []"
    unfolding zeroReport_def by code_simp
  ultimately show ?thesis by simp
qed









subsection \<open>Failures of fetches\<close>























end
